theory Spec2Isabelle
  imports Complex_Main
begin

section \<open>K-means with K-means++ seeding: the model of \<open>kmeaningful/fit_assign.py\<close>\<close>

text \<open>
  The module works on NumPy arrays of floats, of NumPy's default type \<open>float64\<close>. An
  array entry is modelled as a real number or one of the three special values of IEEE
  arithmetic, so that the places where the code produces or tests \<open>nan\<close> and \<open>inf\<close> are
  branches of the model.
  Rounding, overflow and the sign of zero are not modelled: arithmetic on finite
  entries is exact. What is proved below for all finite entries is therefore restricted
  to what does not depend on rounding: the shape of a result, the exception that is
  raised, the sign of an entry, comparisons between computed entries, and values whose
  computation involves no rounding.
\<close>

subsection \<open>Array entries\<close>

datatype npfloat = Fin real | PInf | NInf | NaN

fun isnan :: "npfloat \<Rightarrow> bool" where
  "isnan NaN = True"
| "isnan _ = False"


fun fval :: "npfloat \<Rightarrow> real" where
  "fval (Fin a) = a"
| "fval _ = 0"

fun fneg :: "npfloat \<Rightarrow> npfloat" where
  "fneg (Fin a) = Fin (- a)"
| "fneg PInf = NInf"
| "fneg NInf = PInf"
| "fneg NaN = NaN"

fun fadd :: "npfloat \<Rightarrow> npfloat \<Rightarrow> npfloat" where
  "fadd (Fin a) (Fin b) = Fin (a + b)"
| "fadd NaN _ = NaN"
| "fadd _ NaN = NaN"
| "fadd PInf NInf = NaN"
| "fadd NInf PInf = NaN"
| "fadd PInf _ = PInf"
| "fadd _ PInf = PInf"
| "fadd NInf _ = NInf"
| "fadd _ NInf = NInf"

definition fsub :: "npfloat \<Rightarrow> npfloat \<Rightarrow> npfloat" where
  "fsub a b = fadd a (fneg b)"

text \<open>\<open>x ** 2\<close>\<close>

fun fsq :: "npfloat \<Rightarrow> npfloat" where
  "fsq (Fin a) = Fin (a * a)"
| "fsq PInf = PInf"
| "fsq NInf = PInf"
| "fsq NaN = NaN"

text \<open>\<open>np.sqrt\<close>: \<open>nan\<close> below zero.\<close>

fun fsqrt :: "npfloat \<Rightarrow> npfloat" where
  "fsqrt (Fin a) = (if a < 0 then NaN else Fin (sqrt a))"
| "fsqrt PInf = PInf"
| "fsqrt NInf = NaN"
| "fsqrt NaN = NaN"

text \<open>Division of NumPy floats: \<open>0 / 0\<close> is \<open>nan\<close>, \<open>a / 0\<close> is infinite, no exception.\<close>

fun fdiv :: "npfloat \<Rightarrow> npfloat \<Rightarrow> npfloat" where
  "fdiv (Fin a) (Fin b) =
     (if b = 0 then (if a = 0 then NaN else if 0 < a then PInf else NInf)
      else Fin (a / b))"
| "fdiv NaN _ = NaN"
| "fdiv _ NaN = NaN"
| "fdiv (Fin a) _ = Fin 0"
| "fdiv PInf (Fin b) = (if 0 \<le> b then PInf else NInf)"
| "fdiv NInf (Fin b) = (if 0 \<le> b then NInf else PInf)"
| "fdiv _ _ = NaN"

text \<open>The comparisons \<open><\<close>, \<open>>=\<close> and \<open>==\<close>; every comparison with \<open>nan\<close> is false.\<close>

fun flt :: "npfloat \<Rightarrow> npfloat \<Rightarrow> bool" where
  "flt (Fin a) (Fin b) = (a < b)"
| "flt NaN _ = False"
| "flt _ NaN = False"
| "flt _ NInf = False"
| "flt NInf _ = True"
| "flt PInf _ = False"
| "flt _ PInf = True"

definition feq :: "npfloat \<Rightarrow> npfloat \<Rightarrow> bool" where
  "feq a b = (\<not> isnan a \<and> \<not> isnan b \<and> a = b)"

definition fge :: "npfloat \<Rightarrow> npfloat \<Rightarrow> bool" where
  "fge a b = (flt b a \<or> feq a b)"

definition fle :: "npfloat \<Rightarrow> npfloat \<Rightarrow> bool" where
  "fle a b = fge b a"

text \<open>The truth value of a NumPy float: everything but zero, \<open>nan\<close> included.\<close>

definition truthy :: "npfloat \<Rightarrow> bool" where
  "truthy a = (a \<noteq> Fin 0)"

subsection \<open>Arrays\<close>

text \<open>
  A two-dimensional array of shape \<open>(n, d)\<close> is its width \<open>d\<close> and the list of its
  \<open>n\<close> rows; it is well formed when every row has \<open>d\<close> entries. The width is kept
  apart because an array without rows still has one.
\<close>

record mat =
  ncols :: nat
  mrows :: "npfloat list list"

definition shape0 :: "mat \<Rightarrow> nat" where
  "shape0 M = length (mrows M)"



text \<open>\<open>np.zeros((k, d))\<close>\<close>

definition zeros :: "nat \<Rightarrow> nat \<Rightarrow> npfloat list list" where
  "zeros k d = replicate k (replicate d (Fin 0))"

text \<open>
  The second argument of \<open>measure_dist\<close> is a two-dimensional array everywhere but in
  \<open>calc_centers\<close>, which passes one row of the centers, a one-dimensional array.
\<close>

datatype ndarray = Arr1 "npfloat list" | Arr2 mat

text \<open>\<open>np.sum\<close> of the entries of an array, given as the list of them.\<close>

fun np_sum :: "npfloat list \<Rightarrow> npfloat" where
  "np_sum [] = Fin 0"
| "np_sum (x # xs) = fadd x (np_sum xs)"

text \<open>\<open>np.mean\<close>: the sum over the count; on no entries \<open>0 / 0\<close>, which is \<open>nan\<close>.\<close>

definition np_mean :: "npfloat list \<Rightarrow> npfloat" where
  "np_mean xs = fdiv (np_sum xs) (Fin (real (length xs)))"

subsection \<open>Errors\<close>

text \<open>
  Every \<open>raise Exception(message)\<close> of the module is one constructor, named after its
  message; \<open>BroadcastError\<close> and \<open>NumpyValueError\<close> are the \<open>ValueError\<close>s that NumPy
  itself raises, and \<open>UnexpectedArgument\<close> is the \<open>TypeError\<close> of Python for a call that
  passes an argument the function does not take.
\<close>

datatype error =
    TooManyClusters        \<comment> \<open>Number of clusters must be less than number of data points\<close>
  | NonPositiveClusters    \<comment> \<open>Number of clusters must be a positive integer\<close>
  | WidthMismatch          \<comment> \<open>`X` and `centers` must have the same width\<close>
  | MoreCentersThanPoints  \<comment> \<open>There are more centers than data points\<close>
  | LabelCountMismatch     \<comment> \<open>The number of labels is different from the number of points\<close>
  | NonNumericData         \<comment> \<open>Array contains non-numeric data\<close>
  | KNotInteger            \<comment> \<open>k must be an integer\<close>
  | BroadcastError         \<comment> \<open>ValueError: operands could not be broadcast together\<close>
  | NumpyValueError        \<comment> \<open>ValueError of \<open>argmin\<close>, \<open>argmax\<close>, \<open>min\<close> on no entries, of \<open>random.choice\<close>\<close>
  | UnexpectedArgument     \<comment> \<open>TypeError: the call passes an argument that is not in the signature\<close>

text \<open>Running a list of computations in order; the first exception ends the run.\<close>

fun sequence :: "(error + 'a) list \<Rightarrow> error + 'a list" where
  "sequence [] = Inr []"
| "sequence (x # xs) =
     (case x of Inl e \<Rightarrow> Inl e
      | Inr v \<Rightarrow> (case sequence xs of Inl e \<Rightarrow> Inl e | Inr vs \<Rightarrow> Inr (v # vs)))"

subsection \<open>\<open>measure_dist\<close>\<close>

text \<open>
  \<open>pt - cent\<close> for a row \<open>pt\<close> of \<open>X\<close>: against a row of the centers by NumPy's
  broadcasting of two vectors, against a scalar entry by entry.
\<close>

definition np_sub_vec :: "npfloat list \<Rightarrow> npfloat list \<Rightarrow> error + npfloat list" where
  "np_sub_vec a b =
     (if length a = length b then Inr (map2 fsub a b)
      else if length b = 1 then Inr (map (\<lambda>x. fsub x (hd b)) a)
      else if length a = 1 then Inr (map (\<lambda>y. fsub (hd a) y) b)
      else Inl BroadcastError)"

definition norm_of :: "npfloat list \<Rightarrow> npfloat" where
  "norm_of diff = fsqrt (np_sum (map fsq diff))"

text \<open>One cell: \<open>np.sqrt(np.sum((pt - cent)**2))\<close>.\<close>

definition dist_vec :: "npfloat list \<Rightarrow> npfloat list \<Rightarrow> error + npfloat" where
  "dist_vec pt cent =
     (case np_sub_vec pt cent of Inl e \<Rightarrow> Inl e | Inr diff \<Rightarrow> Inr (norm_of diff))"

definition dist_scalar :: "npfloat list \<Rightarrow> npfloat \<Rightarrow> npfloat" where
  "dist_scalar pt c = norm_of (map (\<lambda>x. fsub x c) pt)"

text \<open>
  The two loops fill every cell \<open>(nn, kk)\<close> of the \<open>n \<times> k\<close> array and no cell depends on
  another, so the model builds the array row by row. With a one-dimensional
  \<open>centers\<close>, \<open>centers.shape[0]\<close> is its length and \<open>centers[kk, ]\<close> is a scalar.
\<close>

fun measure_dist :: "mat \<Rightarrow> ndarray \<Rightarrow> error + npfloat list list" where
  "measure_dist X (Arr2 C) =
     (if shape0 X < shape0 C then Inl MoreCentersThanPoints
      else sequence (map (\<lambda>pt. sequence (map (\<lambda>cent. dist_vec pt cent) (mrows C))) (mrows X)))"
| "measure_dist X (Arr1 c) =
     (if shape0 X < length c then Inl MoreCentersThanPoints
      else Inr (map (\<lambda>pt. map (\<lambda>cent. dist_scalar pt cent) c) (mrows X)))"

subsection \<open>\<open>assign\<close>\<close>

text \<open>
  \<open>np.argmin\<close> and \<open>np.argmax\<close> scan the entries from the left and keep the first
  entry that is smaller (larger) than the best one so far; a \<open>nan\<close> wins over
  everything and ends the scan. On no entries they raise \<open>ValueError\<close>.
\<close>

fun argmin_loop :: "npfloat \<Rightarrow> nat \<Rightarrow> nat \<Rightarrow> npfloat list \<Rightarrow> nat" where
  "argmin_loop mp mi i [] = mi"
| "argmin_loop mp mi i (v # vs) =
     (if isnan mp then mi
      else if \<not> fge v mp then argmin_loop v i (Suc i) vs
      else argmin_loop mp mi (Suc i) vs)"

fun np_argmin :: "npfloat list \<Rightarrow> error + nat" where
  "np_argmin [] = Inl NumpyValueError"
| "np_argmin (x # xs) = Inr (argmin_loop x 0 1 xs)"

fun argmax_loop :: "npfloat \<Rightarrow> nat \<Rightarrow> nat \<Rightarrow> npfloat list \<Rightarrow> nat" where
  "argmax_loop mp mi i [] = mi"
| "argmax_loop mp mi i (v # vs) =
     (if isnan mp then mi
      else if \<not> fle v mp then argmax_loop v i (Suc i) vs
      else argmax_loop mp mi (Suc i) vs)"

fun np_argmax :: "npfloat list \<Rightarrow> error + nat" where
  "np_argmax [] = Inl NumpyValueError"
| "np_argmax (x # xs) = Inr (argmax_loop x 0 1 xs)"

definition label_of :: "npfloat list \<Rightarrow> error + int" where
  "label_of row = (case np_argmin row of Inl e \<Rightarrow> Inl e | Inr j \<Rightarrow> Inr (int j))"

definition assign :: "mat \<Rightarrow> mat \<Rightarrow> error + int list" where
  "assign X centers =
     (if ncols X \<noteq> ncols centers then Inl WidthMismatch
      else if shape0 X < shape0 centers then Inl MoreCentersThanPoints
      else (case measure_dist X (Arr2 centers) of Inl e \<Rightarrow> Inl e
            | Inr distances \<Rightarrow> sequence (map label_of distances)))"

subsection \<open>\<open>calc_centers\<close>\<close>

text \<open>\<open>X[labels == kk]\<close>: the rows of \<open>X\<close> whose label is \<open>kk\<close>, in order.\<close>

definition members :: "mat \<Rightarrow> int list \<Rightarrow> nat \<Rightarrow> npfloat list list" where
  "members X labels kk = map fst (filter (\<lambda>(r, l). l = int kk) (zip (mrows X) labels))"

text \<open>\<open>A[:, dd]\<close>\<close>

definition column :: "npfloat list list \<Rightarrow> nat \<Rightarrow> npfloat list" where
  "column rs dd = map (\<lambda>r. r ! dd) rs"

text \<open>
  Lines 198 to 200, the branch for a cluster without points: \<open>measure_dist\<close> is called
  with the row \<open>centers[kk]\<close>, \<open>np.argmax\<close> runs over the flattened result, and the
  row \<open>argmax // d\<close> of \<open>X\<close> is the new center.
\<close>

definition empty_cluster_row :: "mat \<Rightarrow> npfloat list \<Rightarrow> error + npfloat list" where
  "empty_cluster_row X cent =
     (case measure_dist X (Arr1 cent) of Inl e \<Rightarrow> Inl e
      | Inr dists \<Rightarrow>
          (case np_argmax (concat dists) of Inl e \<Rightarrow> Inl e
           | Inr a \<Rightarrow> Inr (mrows X ! (a div ncols X))))"

text \<open>
  The body of the loop over \<open>kk\<close>: the row that is stored in \<open>new_centers[kk]\<close>. The
  rows do not depend on each other, and the first exception ends the loop.
\<close>

definition calc_row :: "mat \<Rightarrow> mat \<Rightarrow> int list \<Rightarrow> nat \<Rightarrow> error + npfloat list" where
  "calc_row X centers labels kk =
     (let d = ncols X;
          current_center = map (\<lambda>dd. np_mean (column (members X labels kk) dd)) [0..<d]
      in if \<not> isnan (np_sum current_center) then Inr current_center
         else empty_cluster_row X (mrows centers ! kk))"

definition calc_centers :: "mat \<Rightarrow> mat \<Rightarrow> int list \<Rightarrow> error + mat" where
  "calc_centers X centers labels =
     (if shape0 X \<noteq> length labels then Inl LabelCountMismatch
      else if ncols X \<noteq> ncols centers then Inl WidthMismatch
      else (case sequence (map (calc_row X centers labels) [0..<shape0 centers]) of
              Inl e \<Rightarrow> Inl e
            | Inr new_centers \<Rightarrow> Inr \<lparr>ncols = ncols X, mrows = new_centers\<rparr>))"

subsection \<open>\<open>init_centers\<close>\<close>

text \<open>
  The module draws from the global generators of \<open>random\<close> and \<open>numpy.random\<close>. The
  model takes what they deliver as arguments: a natural number \<open>s\<close> behind
  \<open>random.randint\<close>, and for the draw of center \<open>kk\<close> the uniform sample \<open>us kk\<close> of
  \<open>[0, 1)\<close> that \<open>np.random.choice\<close> turns into an index.
\<close>

text \<open>\<open>random.randint(lo, hi)\<close>: an integer of \<open>[lo, hi]\<close>, each of them for some \<open>s\<close>.\<close>

definition randint :: "nat \<Rightarrow> nat \<Rightarrow> nat \<Rightarrow> nat" where
  "randint lo hi s = lo + s mod (hi - lo + 1)"

text \<open>
  \<open>np.random.choice(range(len(p)), size=1, p=p)\<close>: \<open>ValueError\<close> when the
  probabilities contain \<open>nan\<close>, are negative or do not sum to one (NumPy allows for
  rounding there, which exact arithmetic does not need); otherwise the first index at
  which the running sum of \<open>p\<close> exceeds the uniform sample.
\<close>

fun search_cdf :: "real \<Rightarrow> real \<Rightarrow> real list \<Rightarrow> nat" where
  "search_cdf u acc [] = 0"
| "search_cdf u acc (p # ps) =
     (if u < acc + p then 0 else Suc (search_cdf u (acc + p) ps))"

definition np_random_choice :: "npfloat list \<Rightarrow> real \<Rightarrow> error + nat" where
  "np_random_choice p u =
     (if p = [] then Inl NumpyValueError
      else if isnan (np_sum p) then Inl NumpyValueError
      else if list_ex (\<lambda>x. flt x (Fin 0)) p then Inl NumpyValueError
      else if np_sum p \<noteq> Fin 1 then Inl NumpyValueError
      else Inr (search_cdf u 0 (map fval p)))"

text \<open>\<open>min\<close> of a row; a \<open>nan\<close> in the row is the result.\<close>

definition fmin :: "npfloat \<Rightarrow> npfloat \<Rightarrow> npfloat" where
  "fmin a b = (if isnan a then a else if isnan b then b else if flt b a then b else a)"

fun np_min :: "npfloat list \<Rightarrow> error + npfloat" where
  "np_min [] = Inl NumpyValueError"
| "np_min (x # xs) = Inr (foldl fmin x xs)"

text \<open>
  \<open>for i in ind: dists_sq[i] = np.zeros((1, dists_sq.shape[1]))\<close>; the entries of \<open>ind\<close>
  come from the two draws and are indices of rows.
\<close>

definition zero_rows :: "nat list \<Rightarrow> nat \<Rightarrow> npfloat list list \<Rightarrow> npfloat list list" where
  "zero_rows ind w ds = foldl (\<lambda>ds i. ds[i := replicate w (Fin 0)]) ds ind"

text \<open>\<open>a[a == 0] = np.inf\<close> and \<open>a[a == np.inf] = 0\<close>, on one entry.\<close>

definition zero_to_inf :: "npfloat \<Rightarrow> npfloat" where
  "zero_to_inf x = (if feq x (Fin 0) then PInf else x)"

definition inf_to_zero :: "npfloat \<Rightarrow> npfloat" where
  "inf_to_zero x = (if feq x PInf then Fin 0 else x)"

text \<open>
  Lines 50 to 60: the weights of the draw of center \<open>kk\<close>, from the centers chosen so
  far (\<open>centers[0:kk]\<close>) and the indices \<open>ind\<close> of the points chosen so far.
\<close>

definition seed_weights :: "mat \<Rightarrow> npfloat list list \<Rightarrow> nat \<Rightarrow> nat list \<Rightarrow> error + npfloat list" where
  "seed_weights X centers kk ind =
     (case measure_dist X (Arr2 \<lparr>ncols = ncols X, mrows = take kk centers\<rparr>) of
        Inl e \<Rightarrow> Inl e
      | Inr dists \<Rightarrow>
          (let dists_sq = map (map fsq) dists;
               dists_sq = zero_rows ind kk dists_sq;
               dists_sq = map (map zero_to_inf) dists_sq
           in case sequence (map np_min dists_sq) of Inl e \<Rightarrow> Inl e
              | Inr mins \<Rightarrow> Inr (map inf_to_zero mins)))"

text \<open>Line 62: \<open>dists_sq / np.sum(dists_sq)\<close>.\<close>

definition seed_probs :: "npfloat list \<Rightarrow> npfloat list" where
  "seed_probs dists_sq = map (\<lambda>x. fdiv x (np_sum dists_sq)) dists_sq"

text \<open>The body of the loop over \<open>kk\<close>, on the state \<open>(centers, ind)\<close>.\<close>

definition seed_step ::
  "mat \<Rightarrow> real \<Rightarrow> nat \<Rightarrow> npfloat list list \<times> nat list \<Rightarrow> error + npfloat list list \<times> nat list" where
  "seed_step X u kk st =
     (case st of (centers, ind) \<Rightarrow>
        (case seed_weights X centers kk ind of Inl e \<Rightarrow> Inl e
         | Inr dists_sq \<Rightarrow>
             (case np_random_choice (seed_probs dists_sq) u of Inl e \<Rightarrow> Inl e
              | Inr i \<Rightarrow> Inr (centers[kk := mrows X ! i], ind @ [i]))))"

fun seed_loop ::
  "mat \<Rightarrow> (nat \<Rightarrow> real) \<Rightarrow> nat list \<Rightarrow> npfloat list list \<times> nat list
     \<Rightarrow> error + npfloat list list \<times> nat list" where
  "seed_loop X us [] st = Inr st"
| "seed_loop X us (kk # kks) st =
     (case seed_step X (us kk) kk st of Inl e \<Rightarrow> Inl e
      | Inr st' \<Rightarrow> seed_loop X us kks st')"

definition init_centers :: "mat \<Rightarrow> int \<Rightarrow> nat \<Rightarrow> (nat \<Rightarrow> real) \<Rightarrow> error + mat" where
  "init_centers X k s us =
     (if int (shape0 X) < k then Inl TooManyClusters
      else if k \<le> 0 then Inl NonPositiveClusters
      else (let n = shape0 X;
                dimensions = ncols X;
                centers = zeros (nat k) dimensions;
                i0 = randint 0 (n - 1) s;
                centers = centers[0 := mrows X ! i0]
            in case seed_loop X us [1..<nat k] (centers, [i0]) of Inl e \<Rightarrow> Inl e
               | Inr st \<Rightarrow> Inr \<lparr>ncols = dimensions, mrows = fst st\<rparr>))"

subsection \<open>\<open>fit\<close> and \<open>fit_assign\<close>\<close>

text \<open>
  The argument \<open>k\<close> as the caller passes it to \<open>fit\<close>: a Python \<open>int\<close>, or a \<open>float\<close>, which
  fails \<open>isinstance(k, int)\<close>.
\<close>

datatype pynum = PyInt int | PyFloat real

text \<open>\<open>new_centers - centers\<close>: both arrays have the shape \<open>(k, d)\<close>.\<close>

definition mat_sub :: "mat \<Rightarrow> mat \<Rightarrow> npfloat list" where
  "mat_sub A B = concat (map2 (map2 fsub) (mrows A) (mrows B))"

text \<open>
  The \<open>while\<close> loop on the state \<open>(centers, new_centers, i)\<close>; \<open>labels\<close> is written and never
  read. The loop returns its whole final state, \<open>fit\<close> returns \<open>new_centers\<close> of it.
\<close>

function fit_loop :: "mat \<Rightarrow> mat \<Rightarrow> mat \<Rightarrow> nat \<Rightarrow> error + mat \<times> mat \<times> nat" where
  "fit_loop X centers new_centers i =
     (if truthy (np_sum (mat_sub new_centers centers)) \<and> i < 20 then
        (case assign X new_centers of Inl e \<Rightarrow> Inl e
         | Inr new_labels \<Rightarrow>
             (case calc_centers X new_centers new_labels of Inl e \<Rightarrow> Inl e
              | Inr new_centers' \<Rightarrow> fit_loop X new_centers new_centers' (Suc i)))
      else Inr (centers, new_centers, i))"
  by pat_completeness auto
termination
  by (relation "measure (\<lambda>(X, centers, new_centers, i). 20 - i)") auto

text \<open>
  Everything of \<open>fit\<close> before the loop: the checks, the seeding and the first iteration.
  \<open>pd.DataFrame(X)\<close> does not fail on an array.
\<close>

definition fit_run :: "mat \<Rightarrow> pynum \<Rightarrow> nat \<Rightarrow> (nat \<Rightarrow> real) \<Rightarrow> error + mat \<times> mat \<times> nat" where
  "fit_run X k s us =
     (if isnan (np_sum (concat (mrows X))) then Inl NonNumericData
      else (case k of PyFloat x \<Rightarrow> Inl KNotInteger
            | PyInt k' \<Rightarrow>
              (case init_centers X k' s us of Inl e \<Rightarrow> Inl e
               | Inr centers \<Rightarrow>
                 (case assign X centers of Inl e \<Rightarrow> Inl e
                  | Inr labels \<Rightarrow>
                    (case calc_centers X centers labels of Inl e \<Rightarrow> Inl e
                     | Inr new_centers \<Rightarrow>
                       (case assign X centers of Inl e \<Rightarrow> Inl e
                        | Inr new_labels \<Rightarrow> fit_loop X centers new_centers 1))))))"

definition fit :: "mat \<Rightarrow> pynum \<Rightarrow> nat \<Rightarrow> (nat \<Rightarrow> real) \<Rightarrow> error + mat" where
  "fit X k s us =
     (case fit_run X k s us of Inl e \<Rightarrow> Inl e | Inr st \<Rightarrow> Inr (fst (snd st)))"

definition fit_assign :: "mat \<Rightarrow> pynum \<Rightarrow> nat \<Rightarrow> (nat \<Rightarrow> real) \<Rightarrow> error + mat \<times> int list" where
  "fit_assign X k s us =
     (if isnan (np_sum (concat (mrows X))) then Inl NonNumericData
      else (case k of PyFloat x \<Rightarrow> Inl KNotInteger
            | PyInt k' \<Rightarrow>
              (case fit X k s us of Inl e \<Rightarrow> Inl e
               | Inr centers \<Rightarrow>
                 (case assign X centers of Inl e \<Rightarrow> Inl e
                  | Inr labels \<Rightarrow> Inr (centers, labels)))))"

subsection \<open>The signatures\<close>



subsection \<open>Notions of the specification\<close>








subsection \<open>Computations without rounding\<close>




section \<open>Auxiliary facts\<close>

declare fit_loop.simps [simp del]

lemmas model_defs = calc_centers_def calc_row_def empty_cluster_row_def shape0_def dist_scalar_def dist_vec_def
  np_sub_vec_def norm_of_def fsub_def members_def column_def np_mean_def upt_conv_Cons
  Let_def fle_def fge_def feq_def assign_def label_of_def init_centers_def randint_def
  zeros_def seed_step_def seed_weights_def seed_probs_def zero_rows_def fmin_def
  zero_to_inf_def inf_to_zero_def
  np_random_choice_def mat_sub_def truthy_def

subsection \<open>Special values\<close>

lemma fadd_NaN_right [simp]: "fadd x NaN = NaN"
  by (cases x) auto

lemma fsub_Fin [simp]: "fsub (Fin a) (Fin b) = Fin (a - b)"
  by (simp add: fsub_def)

lemma np_sum_has_nan: "list_ex isnan xs \<Longrightarrow> np_sum xs = NaN"
proof (induction xs)
  case Nil
  then show ?case by simp
next
  case (Cons x xs)
  show ?case
  proof (cases "isnan x")
    case True
    then have "x = NaN" by (cases x) auto
    then show ?thesis by simp
  next
    case False
    with Cons show ?thesis by simp
  qed
qed


subsection \<open>Exceptions\<close>


lemma sequence_Inl: "sequence xs = Inl e \<Longrightarrow> Inl e \<in> set xs"
  by (induction xs) (auto split: sum.splits)

lemma sequence_map_error:
  "sequence (map f xs) = Inl e \<Longrightarrow> \<exists>x \<in> set xs. f x = Inl e"
  by (drule sequence_Inl) auto

lemma dist_vec_error: "dist_vec p c = Inl e \<Longrightarrow> e = BroadcastError"
  by (auto simp: dist_vec_def np_sub_vec_def split: if_splits sum.splits)

lemma measure_dist_error:
  "measure_dist X A = Inl e \<Longrightarrow> e = MoreCentersThanPoints \<or> e = BroadcastError"
proof (cases A)
  case (Arr1 c)
  assume "measure_dist X A = Inl e"
  with Arr1 show ?thesis by (auto split: if_splits)
next
  case (Arr2 C)
  assume a: "measure_dist X A = Inl e"
  show ?thesis
  proof (cases "shape0 X < shape0 C")
    case True
    with a Arr2 show ?thesis by simp
  next
    case False
    with a Arr2 obtain pt c where "dist_vec pt c = Inl e"
      by (auto dest!: sequence_map_error)
    then show ?thesis by (auto dest: dist_vec_error)
  qed
qed

lemma label_of_error: "label_of r = Inl e \<Longrightarrow> e = NumpyValueError"
  by (cases r) (auto simp: label_of_def)

lemma assign_error:
  "assign X C = Inl e \<Longrightarrow>
     e \<in> {WidthMismatch, MoreCentersThanPoints, BroadcastError, NumpyValueError}"
  by (auto simp: assign_def simp del: measure_dist.simps split: if_splits sum.splits
      dest!: measure_dist_error sequence_map_error label_of_error)

lemma np_argmax_error: "np_argmax r = Inl e \<Longrightarrow> e = NumpyValueError"
  by (cases r) auto

lemma calc_row_error:
  "calc_row X C L kk = Inl e \<Longrightarrow> e \<in> {MoreCentersThanPoints, BroadcastError, NumpyValueError}"
  by (auto simp: calc_row_def empty_cluster_row_def Let_def simp del: measure_dist.simps
      split: if_splits sum.splits dest!: measure_dist_error np_argmax_error)

lemma calc_centers_error:
  "calc_centers X C L = Inl e \<Longrightarrow>
     e \<in> {LabelCountMismatch, WidthMismatch, MoreCentersThanPoints, BroadcastError,
          NumpyValueError}"
  by (auto simp: calc_centers_def split: if_splits sum.splits
      dest!: sequence_map_error calc_row_error)

lemma np_min_error: "np_min r = Inl e \<Longrightarrow> e = NumpyValueError"
  by (cases r) auto

lemma seed_weights_error:
  "seed_weights X cs kk ind = Inl e \<Longrightarrow>
     e \<in> {MoreCentersThanPoints, BroadcastError, NumpyValueError}"
  by (auto simp: seed_weights_def Let_def simp del: measure_dist.simps split: sum.splits
      dest!: measure_dist_error sequence_map_error np_min_error)

lemma np_random_choice_error: "np_random_choice p u = Inl e \<Longrightarrow> e = NumpyValueError"
  by (auto simp: np_random_choice_def split: if_splits)

lemma seed_step_error:
  "seed_step X u kk st = Inl e \<Longrightarrow> e \<in> {MoreCentersThanPoints, BroadcastError, NumpyValueError}"
  by (auto simp: seed_step_def split: prod.splits sum.splits
      dest!: seed_weights_error np_random_choice_error)

lemma seed_loop_error:
  "seed_loop X us ks st = Inl e \<Longrightarrow> e \<in> {MoreCentersThanPoints, BroadcastError, NumpyValueError}"
proof (induction ks arbitrary: st)
  case Nil
  then show ?case by simp
next
  case (Cons kk ks)
  then show ?case by (auto split: sum.splits dest!: seed_step_error)
qed

lemma init_centers_error:
  "init_centers X k s us = Inl e \<Longrightarrow>
     e \<in> {TooManyClusters, NonPositiveClusters, MoreCentersThanPoints, BroadcastError,
          NumpyValueError}"
  by (auto simp: init_centers_def Let_def split: if_splits sum.splits dest!: seed_loop_error)

subsection \<open>The loop of \<open>fit\<close>\<close>

lemma fit_loop_exit:
  "fit_loop X c nc i = Inr (c', nc', j) \<Longrightarrow> i \<le> 20 \<Longrightarrow>
     i \<le> j \<and> j \<le> 20 \<and> (np_sum (mat_sub nc' c') = Fin 0 \<or> j = 20)"
proof (induction X c nc i rule: fit_loop.induct)
  case (1 X centers new_centers i)
  show ?case
  proof (cases "truthy (np_sum (mat_sub new_centers centers)) \<and> i < 20")
    case False
    with "1.prems" show ?thesis
      by (auto simp: fit_loop.simps [of X centers new_centers i] truthy_def)
  next
    case True
    from True "1.prems"(1) obtain labs ncs where
      a: "assign X new_centers = Inr labs" and
      b: "calc_centers X new_centers labs = Inr ncs" and
      c: "fit_loop X new_centers ncs (Suc i) = Inr (c', nc', j)"
      by (auto simp: fit_loop.simps [of X centers new_centers i] split: sum.splits)
    from True have "Suc i \<le> 20" by simp
    from "1.IH" [OF True a b c this] show ?thesis by simp
  qed
qed

lemma fit_loop_stop:
  "\<not> truthy (np_sum (mat_sub nc c)) \<or> 20 \<le> i \<Longrightarrow> fit_loop X c nc i = Inr (c, nc, i)"
  by (auto simp: fit_loop.simps [of X c nc i])

subsection \<open>The draws that \<open>init_centers\<close> reads\<close>



lemma list_ex_concat: "list_ex (list_ex P) xss \<Longrightarrow> list_ex P (concat xss)"
  by (induction xss) auto

subsection \<open>Distances of finite points\<close>









subsection \<open>\<open>argmin\<close> on finite entries\<close>

lemma fge_Fin [simp]: "fge (Fin a) (Fin b) = (b \<le> a)"
  by (auto simp: fge_def feq_def)

lemma fle_Fin [simp]: "fle (Fin a) (Fin b) = (a \<le> b)"
  by (simp add: fle_def)




subsection \<open>The rows of \<open>calc_centers\<close>\<close>





subsection \<open>The weights of the seeding\<close>

lemma zero_rows_length [simp]: "length (zero_rows ind w ds) = length ds"
  unfolding zero_rows_def by (induction ind arbitrary: ds) simp_all












subsection \<open>Sampling an index\<close>








subsection \<open>Seeding on pairwise distinct points\<close>







subsection \<open>Fixed points of the iteration\<close>




















section \<open>Properties\<close>


subsection \<open>The fallback of \<open>calc_centers\<close> for a cluster without points\<close>

text \<open>
  C1. For a cluster \<open>j\<close> without points, row \<open>j\<close> of \<open>calc_centers(X, C, L)\<close> is meant to be
  the point of \<open>X\<close> farthest from the old center \<open>C[j]\<close>, without an exception. The code
  passes the single row \<open>C[j]\<close> to \<open>measure_dist\<close>, which reads its \<open>d\<close> coordinates as
  \<open>d\<close> centers. With the points \<open>(0, 7)\<close>, \<open>(3, 4)\<close>, both labelled \<open>0\<close>, and the old
  center \<open>(0, 7)\<close> of the empty cluster \<open>1\<close>, the new center of cluster \<open>1\<close> is \<open>(0, 7)\<close>, at
  distance \<open>0\<close> from the old one, and not \<open>(3, 4)\<close>, at distance \<open>sqrt 18\<close>. With two
  points of three coordinates the same call raises.
\<close>

theorem calc_centers_empty_cluster_not_farthest:
  "calc_centers \<lparr>ncols = 2, mrows = [[Fin 0, Fin 7], [Fin 3, Fin 4]]\<rparr>
                \<lparr>ncols = 2, mrows = [[Fin 1, Fin 1], [Fin 0, Fin 7]]\<rparr> [0, 0]
     = Inr \<lparr>ncols = 2, mrows = [[Fin (3 / 2), Fin (11 / 2)], [Fin 0, Fin 7]]\<rparr>
   \<and> dist_vec [Fin 0, Fin 7] [Fin 0, Fin 7] = Inr (Fin 0)
   \<and> dist_vec [Fin 3, Fin 4] [Fin 0, Fin 7] = Inr (Fin (sqrt 18))
   \<and> calc_centers \<lparr>ncols = 3, mrows = [[Fin 0, Fin 0, Fin 0], [Fin 1, Fin 1, Fin 1]]\<rparr>
                  \<lparr>ncols = 3, mrows = [[Fin 0, Fin 0, Fin 0], [Fin 1, Fin 1, Fin 1]]\<rparr> [0, 0]
     = Inl MoreCentersThanPoints"
  by (simp add: model_defs)

subsection \<open>The iteration cap of \<open>fit\<close>\<close>

text \<open>
  C3. \<open>fit\<close> runs the assign/recompute step at most 20 times: when it returns, the
  counter \<open>i\<close> of the steps is between 1 and 20, and either the sum of the entries of
  \<open>new_centers - centers\<close> is exactly zero or \<open>i\<close> is 20; it returns the last
  \<open>new_centers\<close>. The loop stops at once in a state where the sum is zero or the counter
  has reached 20. \<open>fit_loop\<close> is a total function (its termination is proved with the
  measure \<open>20 - i\<close>), so \<open>fit\<close> returns or raises on every input.
\<close>

theorem fit_iteration_cap:
  "(fit_run X k s us = Inr (centers, new_centers, i) \<longrightarrow>
      1 \<le> i \<and> i \<le> 20 \<and> (np_sum (mat_sub new_centers centers) = Fin 0 \<or> i = 20)
      \<and> fit X k s us = Inr new_centers)
   \<and> (np_sum (mat_sub nc c) = Fin 0 \<or> 20 \<le> j \<longrightarrow> fit_loop X c nc j = Inr (c, nc, j))"
proof -
  have "1 \<le> i \<and> i \<le> 20 \<and> (np_sum (mat_sub new_centers centers) = Fin 0 \<or> i = 20)
      \<and> fit X k s us = Inr new_centers"
    if r: "fit_run X k s us = Inr (centers, new_centers, i)"
  proof -
    from r obtain c0 nc0 where "fit_loop X c0 nc0 1 = Inr (centers, new_centers, i)"
      by (auto simp: fit_run_def split: if_splits pynum.splits sum.splits)
    from fit_loop_exit [OF this]
    have "1 \<le> i \<and> i \<le> 20 \<and> (np_sum (mat_sub new_centers centers) = Fin 0 \<or> i = 20)"
      by simp
    moreover from r have "fit X k s us = Inr new_centers"
      by (simp add: fit_def)
    ultimately show ?thesis by simp
  qed
  moreover have "fit_loop X c nc j = Inr (c, nc, j)"
    if "np_sum (mat_sub nc c) = Fin 0 \<or> 20 \<le> j"
    using that by (intro fit_loop_stop) (auto simp: truthy_def)
  ultimately show ?thesis by blast
qed

text \<open>
  The points \<open>0\<close> and \<open>2\<close> on the line with \<open>k = 1\<close>: the first step moves the center
  from \<open>0\<close> to \<open>1\<close>, the second leaves it there, and \<open>fit\<close> returns after two steps.
\<close>

lemma two_points_init:
  "init_centers \<lparr>ncols = 1, mrows = [[Fin 0], [Fin 2]]\<rparr> 1 0 (\<lambda>kk. 0)
     = Inr \<lparr>ncols = 1, mrows = [[Fin 0]]\<rparr>"
  by (simp add: model_defs)

lemma two_points_assign0:
  "assign \<lparr>ncols = 1, mrows = [[Fin 0], [Fin 2]]\<rparr> \<lparr>ncols = 1, mrows = [[Fin 0]]\<rparr> = Inr [0, 0]"
  by (simp add: model_defs)

lemma two_points_calc0:
  "calc_centers \<lparr>ncols = 1, mrows = [[Fin 0], [Fin 2]]\<rparr> \<lparr>ncols = 1, mrows = [[Fin 0]]\<rparr> [0, 0]
     = Inr \<lparr>ncols = 1, mrows = [[Fin 1]]\<rparr>"
  by (simp add: model_defs)

lemma two_points_assign1:
  "assign \<lparr>ncols = 1, mrows = [[Fin 0], [Fin 2]]\<rparr> \<lparr>ncols = 1, mrows = [[Fin 1]]\<rparr> = Inr [0, 0]"
  by (simp add: model_defs)

lemma two_points_calc1:
  "calc_centers \<lparr>ncols = 1, mrows = [[Fin 0], [Fin 2]]\<rparr> \<lparr>ncols = 1, mrows = [[Fin 1]]\<rparr> [0, 0]
     = Inr \<lparr>ncols = 1, mrows = [[Fin 1]]\<rparr>"
  by (simp add: model_defs)

lemma two_points_fit_run:
  "fit_run \<lparr>ncols = 1, mrows = [[Fin 0], [Fin 2]]\<rparr> (PyInt 1) 0 (\<lambda>kk. 0)
     = Inr (\<lparr>ncols = 1, mrows = [[Fin 1]]\<rparr>, \<lparr>ncols = 1, mrows = [[Fin 1]]\<rparr>, 2)"
  using two_points_init two_points_assign0 two_points_calc0 two_points_assign1 two_points_calc1
  by (simp add: fit_run_def fit_loop.simps mat_sub_def truthy_def fsub_def)

theorem fit_iteration_cap_witness:
  "fit_run \<lparr>ncols = 1, mrows = [[Fin 0], [Fin 2]]\<rparr> (PyInt 1) 0 (\<lambda>kk. 0)
     = Inr (\<lparr>ncols = 1, mrows = [[Fin 1]]\<rparr>, \<lparr>ncols = 1, mrows = [[Fin 1]]\<rparr>, 2)
   \<and> (1::nat) \<le> 2 \<and> (2::nat) \<le> 20
   \<and> np_sum (mat_sub \<lparr>ncols = 1, mrows = [[Fin 1]]\<rparr> \<lparr>ncols = 1, mrows = [[Fin 1]]\<rparr>) = Fin 0
   \<and> fit \<lparr>ncols = 1, mrows = [[Fin 0], [Fin 2]]\<rparr> (PyInt 1) 0 (\<lambda>kk. 0)
       = Inr \<lparr>ncols = 1, mrows = [[Fin 1]]\<rparr>
   \<and> fit_loop \<lparr>ncols = 1, mrows = [[Fin 0], [Fin 2]]\<rparr> \<lparr>ncols = 1, mrows = [[Fin 1]]\<rparr>
        \<lparr>ncols = 1, mrows = [[Fin 1]]\<rparr> 2
       = Inr (\<lparr>ncols = 1, mrows = [[Fin 1]]\<rparr>, \<lparr>ncols = 1, mrows = [[Fin 1]]\<rparr>, 2)"
  using two_points_fit_run
    fit_iteration_cap [where X = "\<lparr>ncols = 1, mrows = [[Fin 0], [Fin 2]]\<rparr>" and k = "PyInt 1"
      and s = 0 and us = "\<lambda>kk. 0" and centers = "\<lparr>ncols = 1, mrows = [[Fin 1]]\<rparr>"
      and new_centers = "\<lparr>ncols = 1, mrows = [[Fin 1]]\<rparr>" and i = 2
      and c = "\<lparr>ncols = 1, mrows = [[Fin 1]]\<rparr>" and nc = "\<lparr>ncols = 1, mrows = [[Fin 1]]\<rparr>"
      and j = 2]
  by (simp add: mat_sub_def fsub_def)


subsection \<open>The sampling distribution of \<open>init_centers\<close>\<close>

text \<open>
  C2. In the draw of each center after the first, an index that is already selected is
  meant to have probability zero and every other index a probability proportional to the
  squared distance of its point to the nearest chosen center, so that a point that
  coincides with a chosen center without being selected has probability zero. The code
  replaces every zero of the squared distances by \<open>inf\<close> before it takes the minimum of a
  row (lines 55 to 60), so with two or more chosen centers a zero distance to one center
  is skipped in favour of the distance to another one.

  On the points \<open>0\<close>, \<open>0\<close>, \<open>1\<close>, \<open>2\<close> with \<open>k = 3\<close> and the point of index \<open>0\<close> drawn first:
  in the draw of center \<open>1\<close> the point of index \<open>1\<close>, which coincides with the chosen
  center, has weight \<open>0\<close>; with the index \<open>2\<close> drawn there, the squared distances to the
  nearest chosen center are \<open>0\<close>, \<open>0\<close>, \<open>0\<close>, \<open>1\<close>, but the weights of the draw of center \<open>2\<close>
  are \<open>0\<close>, \<open>1\<close>, \<open>0\<close>, \<open>1\<close>: the point of index \<open>1\<close> has probability one half, not zero, and
  it is drawn when the uniform sample is below one half.
\<close>

theorem init_centers_draws_coinciding_point:
  "seed_weights \<lparr>ncols = 1, mrows = [[Fin 0], [Fin 0], [Fin 1], [Fin 2]]\<rparr>
       [[Fin 0], [Fin 0], [Fin 0]] 1 [0] = Inr [Fin 0, Fin 0, Fin 1, Fin 4]
   \<and> measure_dist \<lparr>ncols = 1, mrows = [[Fin 0], [Fin 0], [Fin 1], [Fin 2]]\<rparr>
         (Arr2 \<lparr>ncols = 1, mrows = take 2 [[Fin 0], [Fin 1], [Fin 0]]\<rparr>)
       = Inr [[Fin 0, Fin 1], [Fin 0, Fin 1], [Fin 1, Fin 0], [Fin 2, Fin 1]]
   \<and> seed_weights \<lparr>ncols = 1, mrows = [[Fin 0], [Fin 0], [Fin 1], [Fin 2]]\<rparr>
       [[Fin 0], [Fin 1], [Fin 0]] 2 [0, 2] = Inr [Fin 0, Fin 1, Fin 0, Fin 1]
   \<and> seed_probs [Fin 0, Fin 1, Fin 0, Fin 1] = [Fin 0, Fin (1 / 2), Fin 0, Fin (1 / 2)]
   \<and> np_random_choice [Fin 0, Fin (1 / 2), Fin 0, Fin (1 / 2)] (1 / 4) = Inr 1
   \<and> init_centers \<lparr>ncols = 1, mrows = [[Fin 0], [Fin 0], [Fin 1], [Fin 2]]\<rparr> 3 0
        (\<lambda>kk. if kk = 1 then 1 / 10 else 1 / 4)
       = Inr \<lparr>ncols = 1, mrows = [[Fin 0], [Fin 1], [Fin 0]]\<rparr>"
  by (simp add: model_defs numeral_2_eq_2 numeral_3_eq_3)

subsection \<open>The random draws of \<open>fit\<close>\<close>










subsection \<open>The check for missing values\<close>

text \<open>
  C6, as amended. \<open>fit\<close> and \<open>fit_assign\<close>, given an \<open>X\<close> that contains \<open>nan\<close>, raise
  "Array contains non-numeric data" before any other check or computation.
  \<open>init_centers\<close>, \<open>assign\<close>, \<open>measure_dist\<close> and \<open>calc_centers\<close> have no such check: they
  never raise that exception.
\<close>

theorem nan_check_in_fit_only:
  "(list_ex (list_ex isnan) (mrows X) \<longrightarrow>
      fit X k s us = Inl NonNumericData \<and> fit_assign X k s us = Inl NonNumericData)
   \<and> init_centers X k' s us \<noteq> Inl NonNumericData
   \<and> assign X C \<noteq> Inl NonNumericData
   \<and> measure_dist X A \<noteq> Inl NonNumericData
   \<and> calc_centers X C L \<noteq> Inl NonNumericData"
proof -
  have "fit X k s us = Inl NonNumericData \<and> fit_assign X k s us = Inl NonNumericData"
    if "list_ex (list_ex isnan) (mrows X)"
  proof -
    from that have "np_sum (concat (mrows X)) = NaN"
      by (intro np_sum_has_nan list_ex_concat)
    then show ?thesis by (simp add: fit_def fit_run_def fit_assign_def)
  qed
  moreover have "init_centers X k' s us \<noteq> Inl NonNumericData"
    using init_centers_error [of X k' s us NonNumericData] by auto
  moreover have "assign X C \<noteq> Inl NonNumericData"
    using assign_error [of X C NonNumericData] by auto
  moreover have "measure_dist X A \<noteq> Inl NonNumericData"
    using measure_dist_error [of X A NonNumericData] by auto
  moreover have "calc_centers X C L \<noteq> Inl NonNumericData"
    using calc_centers_error [of X C L NonNumericData] by auto
  ultimately show ?thesis by blast
qed

theorem nan_check_in_fit_only_witness:
  "list_ex (list_ex isnan) (mrows \<lparr>ncols = 1, mrows = [[Fin 0], [NaN]]\<rparr>)
   \<and> fit \<lparr>ncols = 1, mrows = [[Fin 0], [NaN]]\<rparr> (PyInt 1) 0 (\<lambda>kk. 0) = Inl NonNumericData
   \<and> fit_assign \<lparr>ncols = 1, mrows = [[Fin 0], [NaN]]\<rparr> (PyInt 1) 0 (\<lambda>kk. 0) = Inl NonNumericData"
  using nan_check_in_fit_only [where X = "\<lparr>ncols = 1, mrows = [[Fin 0], [NaN]]\<rparr>"
      and k = "PyInt 1" and s = 0 and us = "\<lambda>kk. 0"]
  by simp

text \<open>
  The claim as stated fails: on the single point \<open>nan\<close> and the single center \<open>0\<close>,
  \<open>measure_dist\<close>, \<open>assign\<close>, \<open>calc_centers\<close> and \<open>init_centers\<close> return a result.
\<close>

theorem nan_input_not_rejected_counterexample:
  "list_ex (list_ex isnan) (mrows \<lparr>ncols = 1, mrows = [[NaN]]\<rparr>)
   \<and> measure_dist \<lparr>ncols = 1, mrows = [[NaN]]\<rparr> (Arr2 \<lparr>ncols = 1, mrows = [[Fin 0]]\<rparr>) = Inr [[NaN]]
   \<and> assign \<lparr>ncols = 1, mrows = [[NaN]]\<rparr> \<lparr>ncols = 1, mrows = [[Fin 0]]\<rparr> = Inr [0]
   \<and> calc_centers \<lparr>ncols = 1, mrows = [[NaN]]\<rparr> \<lparr>ncols = 1, mrows = [[Fin 0]]\<rparr> [0]
       = Inr \<lparr>ncols = 1, mrows = [[NaN]]\<rparr>
   \<and> init_centers \<lparr>ncols = 1, mrows = [[NaN]]\<rparr> 1 0 (\<lambda>kk. 0) = Inr \<lparr>ncols = 1, mrows = [[NaN]]\<rparr>"
  by (simp add: model_defs)


subsection \<open>The labels of \<open>assign\<close>\<close>




subsection \<open>The distance matrix\<close>




subsection \<open>The checks of \<open>k\<close>\<close>

text \<open>
  C8. For an \<open>X\<close> with \<open>n\<close> points and without missing values: \<open>init_centers(X, k)\<close>
  raises "Number of clusters must be a positive integer" when \<open>k \<le> 0\<close> and "Number of
  clusters must be less than number of data points" when \<open>k > n\<close>; \<open>fit(X, k)\<close> raises "k
  must be an integer" when \<open>k\<close> is a float, and \<open>fit(X, 0)\<close> raises the exception of
  \<open>init_centers\<close> for \<open>k \<le> 0\<close>; for \<open>0 < k \<le> n\<close>, \<open>init_centers\<close> raises neither of its two
  exceptions about \<open>k\<close>.
\<close>

theorem parameter_k_errors:
  assumes "k1 \<le> 0" and "int (shape0 X) < k2" and "0 < k3" and "k3 \<le> int (shape0 X)"
    and "\<not> isnan (np_sum (concat (mrows X)))"
  shows "init_centers X k1 s us = Inl NonPositiveClusters
       \<and> init_centers X k2 s us = Inl TooManyClusters
       \<and> fit X (PyFloat x) s us = Inl KNotInteger
       \<and> fit X (PyInt 0) s us = Inl NonPositiveClusters
       \<and> init_centers X k3 s us \<noteq> Inl NonPositiveClusters
       \<and> init_centers X k3 s us \<noteq> Inl TooManyClusters"
proof -
  from assms(1) have a: "init_centers X k1 s us = Inl NonPositiveClusters"
    by (simp add: init_centers_def)
  from assms(2) have b: "init_centers X k2 s us = Inl TooManyClusters"
    by (simp add: init_centers_def)
  from assms(5) have c: "fit X (PyFloat x) s us = Inl KNotInteger"
    by (simp add: fit_def fit_run_def)
  have "init_centers X 0 s us = Inl NonPositiveClusters"
    by (simp add: init_centers_def)
  with assms(5) have d: "fit X (PyInt 0) s us = Inl NonPositiveClusters"
    by (simp add: fit_def fit_run_def)
  have e: "init_centers X k3 s us \<noteq> Inl NonPositiveClusters
      \<and> init_centers X k3 s us \<noteq> Inl TooManyClusters"
    using assms(3,4)
    by (auto simp: init_centers_def Let_def split: sum.splits dest!: seed_loop_error)
  from a b c d e show ?thesis by simp
qed

theorem parameter_k_errors_witness:
  "(0::int) \<le> 0 \<and> int (shape0 \<lparr>ncols = 1, mrows = [[Fin 5]]\<rparr>) < 2 \<and> (0::int) < 1
   \<and> 1 \<le> int (shape0 \<lparr>ncols = 1, mrows = [[Fin 5]]\<rparr>)
   \<and> \<not> isnan (np_sum (concat (mrows \<lparr>ncols = 1, mrows = [[Fin 5]]\<rparr>)))
   \<and> init_centers \<lparr>ncols = 1, mrows = [[Fin 5]]\<rparr> 0 0 (\<lambda>kk. 0) = Inl NonPositiveClusters
   \<and> init_centers \<lparr>ncols = 1, mrows = [[Fin 5]]\<rparr> 2 0 (\<lambda>kk. 0) = Inl TooManyClusters
   \<and> fit \<lparr>ncols = 1, mrows = [[Fin 5]]\<rparr> (PyFloat (3 / 2)) 0 (\<lambda>kk. 0) = Inl KNotInteger
   \<and> fit \<lparr>ncols = 1, mrows = [[Fin 5]]\<rparr> (PyInt 0) 0 (\<lambda>kk. 0) = Inl NonPositiveClusters
   \<and> init_centers \<lparr>ncols = 1, mrows = [[Fin 5]]\<rparr> 1 0 (\<lambda>kk. 0) \<noteq> Inl NonPositiveClusters
   \<and> init_centers \<lparr>ncols = 1, mrows = [[Fin 5]]\<rparr> 1 0 (\<lambda>kk. 0) \<noteq> Inl TooManyClusters"
  using parameter_k_errors [where ?k1.0 = 0 and X = "\<lparr>ncols = 1, mrows = [[Fin 5]]\<rparr>"
      and ?k2.0 = 2 and ?k3.0 = 1 and s = 0 and us = "\<lambda>kk. 0" and x = "3 / 2"]
  by (simp add: shape0_def)


subsection \<open>The boundaries \<open>k = 1\<close> and \<open>k = n\<close>\<close>








subsection \<open>Labels outside \<open>[0, k)\<close> in \<open>calc_centers\<close>\<close>

text \<open>
  C10. \<open>calc_centers\<close> does not check the values of the labels: a point whose label is
  not in \<open>[0, k)\<close> enters no mean, and a cluster matched by no label takes the branch for
  a cluster without points. That branch is the one of C1: it passes the single row
  \<open>centers[kk]\<close> to \<open>measure_dist\<close>, which reads its \<open>d\<close> coordinates as \<open>d\<close> centers and
  raises when \<open>n < d\<close>. So the call is not free of exceptions caused by a label out of
  range: with the one point \<open>(0, 0, 0)\<close>, which is also the one center, the label \<open>0\<close>
  gives the center \<open>(0, 0, 0)\<close> and the label \<open>7\<close> raises. With two points of one
  coordinate, the labels \<open>7\<close> and \<open>0\<close> give the second point as the center of cluster \<open>0\<close>.
\<close>

theorem calc_centers_label_out_of_range_raises:
  "calc_centers \<lparr>ncols = 3, mrows = [[Fin 0, Fin 0, Fin 0]]\<rparr>
                \<lparr>ncols = 3, mrows = [[Fin 0, Fin 0, Fin 0]]\<rparr> [0]
     = Inr \<lparr>ncols = 3, mrows = [[Fin 0, Fin 0, Fin 0]]\<rparr>
   \<and> calc_centers \<lparr>ncols = 3, mrows = [[Fin 0, Fin 0, Fin 0]]\<rparr>
                  \<lparr>ncols = 3, mrows = [[Fin 0, Fin 0, Fin 0]]\<rparr> [7]
     = Inl MoreCentersThanPoints
   \<and> members \<lparr>ncols = 3, mrows = [[Fin 0, Fin 0, Fin 0]]\<rparr> [7] 0 = []
   \<and> calc_row \<lparr>ncols = 3, mrows = [[Fin 0, Fin 0, Fin 0]]\<rparr>
               \<lparr>ncols = 3, mrows = [[Fin 0, Fin 0, Fin 0]]\<rparr> [7] 0
     = empty_cluster_row \<lparr>ncols = 3, mrows = [[Fin 0, Fin 0, Fin 0]]\<rparr> [Fin 0, Fin 0, Fin 0]
   \<and> measure_dist \<lparr>ncols = 3, mrows = [[Fin 0, Fin 0, Fin 0]]\<rparr> (Arr1 [Fin 0, Fin 0, Fin 0])
     = Inl MoreCentersThanPoints
   \<and> calc_centers \<lparr>ncols = 1, mrows = [[Fin 0], [Fin 2]]\<rparr> \<lparr>ncols = 1, mrows = [[Fin 1]]\<rparr> [7, 0]
     = Inr \<lparr>ncols = 1, mrows = [[Fin 2]]\<rparr>"
  by (simp add: model_defs)

end
